theory Spec2Isabelle
  imports Main "HOL-Library.AList"
begin

section \<open>Continuation registry (src/index.js, lines 10-52)\<close>

text \<open>
  The source keeps two globals: the plain object \<open>continuations\<close>, which maps a
  continuation id to the resolve function of the promise a suspended procedure awaits,
  and the array \<open>uuids\<close>. A plain object keeps its own string keys in insertion order,
  so it is an association list with distinct keys here. The stored resolve function is
  the type parameter \<open>'k\<close>.
\<close>

type_synonym token = string

record 'k registry =
  continuations :: "(token \<times> 'k) list"
  uuids :: "token list"

definition MAX_CONTINUATIONS :: nat where
  "MAX_CONTINUATIONS = 100"

definition init_registry :: "'k registry" where
  "init_registry = \<lparr>continuations = [], uuids = []\<rparr>"

text \<open>
  \<open>continuations\<close> is created by the literal \<open>{}\<close>, so its prototype is
  \<open>Object.prototype\<close>: reading \<open>continuations[id]\<close> for an id that is not an own key
  yields the inherited member when the id is one of the names below (the members the
  language standard gives \<open>Object.prototype\<close>), and \<open>undefined\<close> otherwise.
\<close>

definition Object_prototype_names :: "string list" where
  "Object_prototype_names =
     [''constructor'', ''hasOwnProperty'', ''isPrototypeOf'', ''propertyIsEnumerable'',
      ''toLocaleString'', ''toString'', ''valueOf'', ''__proto__'',
      ''__defineGetter__'', ''__defineSetter__'', ''__lookupGetter__'',
      ''__lookupSetter__'']"

datatype 'k lookup = Own 'k | Inherited | Absent

definition property_lookup :: "(string \<times> 'k) list \<Rightarrow> string \<Rightarrow> 'k lookup" where
  "property_lookup obj key =
     (case map_of obj key of
        Some k \<Rightarrow> Own k
      | None \<Rightarrow> if key \<in> set Object_prototype_names then Inherited else Absent)"

text \<open>
  Line 18 reads \<open>uuids.push[continuationID]\<close>: square brackets, so it reads a property
  of the function \<open>uuids.push\<close> and discards it. The array is not changed.
\<close>

definition push_indexed :: "token list \<Rightarrow> token \<Rightarrow> token list" where
  "push_indexed us continuationID = us"

text \<open>
  Lines 21-24, the loop \<open>while(uuids.length > MAX_CONTINUATIONS)\<close>: \<open>shift\<close> removes
  the first element, \<open>delete\<close> removes that key from \<open>continuations\<close> (nothing
  happens when the key is not an own key).
\<close>

function evict :: "'k registry \<Rightarrow> 'k registry" where
  "evict s =
     (if length (uuids s) > MAX_CONTINUATIONS
      then evict (s\<lparr>uuids := tl (uuids s),
                    continuations := AList.delete (hd (uuids s)) (continuations s)\<rparr>)
      else s)"
  by pat_completeness auto
termination
  by (relation "measure (\<lambda>s. length (uuids s))") (auto simp: MAX_CONTINUATIONS_def)

declare evict.simps [simp del]

text \<open>
  \<open>sendSuspend\<close> (lines 16-30). The id is the result of \<open>uuidv4()\<close>, an argument
  here; \<open>resolve\<close> is the resolve function of the promise returned. The promise
  executor runs inside \<open>new Promise\<close>, so the assignment to \<open>continuations\<close> happens
  before \<open>sendSuspend\<close> returns. The result is the URL handed to the response
  generator and the registry afterwards.
\<close>

definition sendSuspend :: "token \<Rightarrow> 'k \<Rightarrow> 'k registry \<Rightarrow> string \<times> 'k registry" where
  "sendSuspend continuationID resolve s =
     (let s1 = s\<lparr>uuids := push_indexed (uuids s) continuationID\<rparr>;
          s2 = evict s1;
          continueURL = ''/continue/'' @ continuationID
      in (continueURL,
          s2\<lparr>continuations := AList.update continuationID resolve (continuations s2)\<rparr>))"

text \<open>
  The handler of \<open>/continue/:continuationID\<close> (lines 45-52). When the lookup yields
  anything but \<open>undefined\<close> the key is deleted and the value is called with the request
  and the response; the handler itself sends nothing on that branch. Otherwise the
  notice "Sorry, your session has expired or is invalid" is sent.
\<close>

datatype 'k response =
    Resumed 'k
  | CalledInherited string
  | Expired

definition continue_request :: "token \<Rightarrow> 'k registry \<Rightarrow> 'k response \<times> 'k registry" where
  "continue_request cid s =
     (case property_lookup (continuations s) cid of
        Own k \<Rightarrow>
          (Resumed k, s\<lparr>continuations := AList.delete cid (continuations s)\<rparr>)
      | Inherited \<Rightarrow>
          (CalledInherited cid, s\<lparr>continuations := AList.delete cid (continuations s)\<rparr>)
      | Absent \<Rightarrow> (Expired, s))"

text \<open>
  A history of the server as far as the registry goes: suspensions (each with the id
  \<open>uuidv4\<close> returned and the resolve function stored) and requests to
  \<open>/continue/:continuationID\<close>, in the order in which they are handled.
\<close>

datatype 'k event = Suspend token 'k | Continue token

fun step :: "'k event \<Rightarrow> 'k registry \<Rightarrow> 'k response option \<times> 'k registry" where
  "step (Suspend t k) s = (None, snd (sendSuspend t k s))"
| "step (Continue t) s = (case continue_request t s of (r, s') \<Rightarrow> (Some r, s'))"

fun run :: "'k registry \<Rightarrow> 'k event list \<Rightarrow> 'k response option list" where
  "run s [] = []"
| "run s (e # es) = fst (step e s) # run (snd (step e s)) es"

fun exec :: "'k registry \<Rightarrow> 'k event list \<Rightarrow> 'k registry" where
  "exec s [] = s"
| "exec s (e # es) = exec (snd (step e s)) es"

fun minted :: "'k event list \<Rightarrow> token list" where
  "minted [] = []"
| "minted (Suspend t k # es) = t # minted es"
| "minted (Continue t # es) = minted es"

text \<open>
  The ids come from \<open>uuidv4()\<close> of the \<open>uuid\<close> package, which is not part of the
  repository: 36 characters, groups of 8, 4, 4, 4 and 12 hexadecimal digits separated
  by hyphens.
\<close>

definition hex_digit :: "char \<Rightarrow> bool" where
  "hex_digit c = (c \<in> set ''0123456789abcdef'')"

definition uuid_format :: "string \<Rightarrow> bool" where
  "uuid_format t =
     (length t = 36 \<and>
      list_all (\<lambda>i. if i \<in> {8, 13, 18, 23} then t ! i = CHR ''-'' else hex_digit (t ! i))
        [0..<36])"

definition uuid_of :: "nat \<Rightarrow> string" where
  "uuid_of n =
     ''00000000-0000-4000-8000-000000000'' @
     [''0123456789'' ! (n div 100 mod 10), ''0123456789'' ! (n div 10 mod 10),
      ''0123456789'' ! (n mod 10)]"


text \<open>
  \<open>resumes t\<close> holds of an event and its outcome when the event is a request bearing
  \<open>t\<close> and the handler called the stored resolve function.
\<close>

fun resumes :: "token \<Rightarrow> 'k event \<times> 'k response option \<Rightarrow> bool" where
  "resumes t (Continue t', Some (Resumed k)) = (t' = t)"
| "resumes t _ = False"

text \<open>The history of \<open>n\<close> suspensions in a row, the \<open>i\<close>-th storing \<open>i\<close>.\<close>

definition suspensions :: "nat \<Rightarrow> nat event list" where
  "suspensions n = map (\<lambda>i. Suspend (uuid_of i) i) [0..<n]"

section \<open>Values of the language\<close>

text \<open>
  The values the program handles: what the query-string parser puts in \<open>req.query\<close>
  (strings, arrays and objects of them, \<open>undefined\<close> for a parameter that is absent)
  and what \<open>JSON.parse\<close> returns. A string is a list of code units below 256. \<open>Num\<close>
  is a Number whose value is an integer of magnitude at most \<open>2^53\<close>; Numbers with a
  fraction, \<open>NaN\<close> and the infinities have no representation, and an operation whose
  result would need one, or would depend on rounding to a double, returns
  \<open>OutsideModel\<close>. An object is the list of its own properties in creation order.
\<close>

datatype jsval =
    Undefined
  | Null
  | Bool bool
  | Num int
  | Str string
  | Arr "jsval list"
  | Obj "(string \<times> jsval) list"

datatype error = TypeError | SyntaxError | OutsideModel

text \<open>
  Reading a property by one of the names the program uses (\<open>title\<close>, \<open>questions\<close>,
  \<open>type\<close>, \<open>text\<close>, \<open>answer\<close>, \<open>choices\<close> and the query parameters; none of them is a
  member of a prototype): a TypeError on \<open>undefined\<close> and \<open>null\<close>, the own property of
  an object, and \<open>undefined\<close> in every other case.
\<close>

fun get :: "jsval \<Rightarrow> string \<Rightarrow> error + jsval" where
  "get Undefined key = Inl TypeError"
| "get Null key = Inl TypeError"
| "get (Obj kvs) key = (case map_of kvs key of Some v \<Rightarrow> Inr v | None \<Rightarrow> Inr Undefined)"
| "get v key = Inr Undefined"

text \<open>Truthiness, as the conditions of \<open>if\<close> take it.\<close>

fun truthy :: "jsval \<Rightarrow> bool" where
  "truthy Undefined = False"
| "truthy Null = False"
| "truthy (Bool b) = b"
| "truthy (Num n) = (n \<noteq> 0)"
| "truthy (Str s) = (s \<noteq> [])"
| "truthy (Arr xs) = True"
| "truthy (Obj kvs) = True"

subsection \<open>Decimal numerals\<close>

definition digit_char :: "nat \<Rightarrow> char" where
  "digit_char n = char_of (48 + n)"

definition is_digit :: "char \<Rightarrow> bool" where
  "is_digit c = (48 \<le> (of_char c :: nat) \<and> (of_char c :: nat) \<le> 57)"

definition digit_val :: "char \<Rightarrow> int" where
  "digit_val c = int (of_char c) - 48"

function digits :: "nat \<Rightarrow> string" where
  "digits n = (if n < 10 then [digit_char n] else digits (n div 10) @ [digit_char (n mod 10)])"
  by pat_completeness auto
termination
  by (relation "measure id") auto

declare digits.simps [simp del]

definition digits_value :: "string \<Rightarrow> int" where
  "digits_value ds = foldl (\<lambda>a c. 10 * a + digit_val c) 0 ds"

text \<open>Number to string, for an integer value: the decimal digits, after a minus sign if negative.\<close>

definition show_int :: "int \<Rightarrow> string" where
  "show_int i = (if i < 0 then CHR ''-'' # digits (nat (- i)) else digits (nat i))"

definition MAX_SAFE :: int where
  "MAX_SAFE = 2 ^ 53"

subsection \<open>Conversion to string\<close>

fun join :: "string list \<Rightarrow> string" where
  "join [] = []"
| "join [s] = s"
| "join (s # ss) = s @ CHR '','' # join ss"

text \<open>
  \<open>ToString\<close>, which also gives the property key of a value used as an index and the
  primitive of an object under \<open>==\<close>. An array is joined with commas, \<open>undefined\<close> and
  \<open>null\<close> elements giving the empty string. An object gives \<open>[object Object]\<close>, unless
  it has an own property \<open>toString\<close>: that property is data, not a function, and the
  conversion raises a TypeError.
\<close>

fun ToString :: "jsval \<Rightarrow> error + string"
  and ToString_elements :: "jsval list \<Rightarrow> error + string list" where
  "ToString Undefined = Inr ''undefined''"
| "ToString Null = Inr ''null''"
| "ToString (Bool b) = Inr (if b then ''true'' else ''false'')"
| "ToString (Num n) = Inr (show_int n)"
| "ToString (Str s) = Inr s"
| "ToString (Arr xs) =
     (case ToString_elements xs of Inl e \<Rightarrow> Inl e | Inr ss \<Rightarrow> Inr (join ss))"
| "ToString (Obj kvs) =
     (if ''toString'' \<in> fst ` set kvs then Inl TypeError else Inr ''[object Object]'')"
| "ToString_elements [] = Inr []"
| "ToString_elements (x # xs) =
     (case (if x = Undefined \<or> x = Null then Inr [] else ToString x) of
        Inl e \<Rightarrow> Inl e
      | Inr s \<Rightarrow> (case ToString_elements xs of Inl e \<Rightarrow> Inl e | Inr ss \<Rightarrow> Inr (s # ss)))"

subsection \<open>Conversion of a string to a number\<close>

text \<open>
  \<open>StringToNumber\<close>: white space is stripped at both ends; the empty string is 0; an
  optional sign and decimal digits give the integer they denote. A string with a
  character that occurs in no numeric literal is \<open>NaN\<close> (\<open>None\<close>). What remains
  (fractions, exponents, \<open>0x\<close>, \<open>0o\<close>, \<open>0b\<close>, \<open>Infinity\<close>, integers above \<open>2^53\<close>, and
  strings over those characters that are no literal) is outside the model.
\<close>

definition StrWhiteSpaceChar :: "char \<Rightarrow> bool" where
  "StrWhiteSpaceChar c = ((of_char c :: nat) \<in> {9, 10, 11, 12, 13, 32, 160})"

definition trim :: "string \<Rightarrow> string" where
  "trim s = rev (dropWhile StrWhiteSpaceChar (rev (dropWhile StrWhiteSpaceChar s)))"

definition numeric_alphabet :: "char \<Rightarrow> bool" where
  "numeric_alphabet c = (c \<in> set ''0123456789+-.eExXoObBaAcCdDfFInity'')"

definition StringToNumber :: "string \<Rightarrow> error + int option" where
  "StringToNumber s =
     (let t = trim s;
          negative = (t \<noteq> [] \<and> hd t = CHR ''-'');
          ds = (if t \<noteq> [] \<and> (hd t = CHR ''-'' \<or> hd t = CHR ''+'') then tl t else t)
      in if t = [] then Inr (Some 0)
         else if ds \<noteq> [] \<and> list_all is_digit ds then
           (if digits_value ds \<le> MAX_SAFE
            then Inr (Some (if negative then - digits_value ds else digits_value ds))
            else Inl OutsideModel)
         else if list_all numeric_alphabet t then Inl OutsideModel
         else Inr None)"

subsection \<open>The operator \<open>==\<close>\<close>

text \<open>
  \<open>IsLooselyEqual\<close>. Operands of one type are compared as they are; \<open>null\<close> and
  \<open>undefined\<close> equal each other and nothing else; a boolean is converted to 0 or 1; a
  string compared with a number is converted to a number; an object or array compared
  with a primitive is converted to its string. Two objects are equal only when they are
  the same object: the operands of each comparison the program makes are distinct
  objects, so the result is \<open>False\<close>.
\<close>

fun num_eq :: "int \<Rightarrow> jsval \<Rightarrow> error + bool"
  and str_eq :: "string \<Rightarrow> jsval \<Rightarrow> error + bool" where
  "num_eq a Undefined = Inr False"
| "num_eq a Null = Inr False"
| "num_eq a (Bool b) = Inr (a = (if b then 1 else 0))"
| "num_eq a (Num b) = Inr (a = b)"
| "num_eq a (Str s) =
     (case StringToNumber s of Inl e \<Rightarrow> Inl e | Inr n \<Rightarrow> Inr (n = Some a))"
| "num_eq a v = (case ToString v of Inl e \<Rightarrow> Inl e | Inr s \<Rightarrow> num_eq a (Str s))"
| "str_eq s Undefined = Inr False"
| "str_eq s Null = Inr False"
| "str_eq s (Bool b) = num_eq (if b then 1 else 0) (Str s)"
| "str_eq s (Num b) = num_eq b (Str s)"
| "str_eq s (Str t) = Inr (s = t)"
| "str_eq s v = (case ToString v of Inl e \<Rightarrow> Inl e | Inr t \<Rightarrow> Inr (s = t))"

fun is_object :: "jsval \<Rightarrow> bool" where
  "is_object (Arr xs) = True"
| "is_object (Obj kvs) = True"
| "is_object v = False"

fun loose_eq :: "jsval \<Rightarrow> jsval \<Rightarrow> error + bool" where
  "loose_eq Undefined y = Inr (y = Undefined \<or> y = Null)"
| "loose_eq Null y = Inr (y = Undefined \<or> y = Null)"
| "loose_eq (Bool b) y = num_eq (if b then 1 else 0) y"
| "loose_eq (Num a) y = num_eq a y"
| "loose_eq (Str s) y = str_eq s y"
| "loose_eq x y =
     (if is_object y \<or> y = Undefined \<or> y = Null then Inr False
      else case ToString x of Inl e \<Rightarrow> Inl e | Inr s \<Rightarrow> str_eq s y)"

subsection \<open>\<open>String.prototype.toLowerCase\<close>\<close>

text \<open>
  On code units below 256 the upper-case letters are \<open>A\<close>-\<open>Z\<close> (65-90) and the
  Latin-1 letters 192-222 except the multiplication sign 215; each maps to the code
  unit 32 above it.
\<close>

definition is_upper :: "char \<Rightarrow> bool" where
  "is_upper c =
     ((65 \<le> (of_char c :: nat) \<and> (of_char c :: nat) \<le> 90) \<or>
      (192 \<le> (of_char c :: nat) \<and> (of_char c :: nat) \<le> 222 \<and> (of_char c :: nat) \<noteq> 215))"

definition toLowerCase_char :: "char \<Rightarrow> char" where
  "toLowerCase_char c = (if is_upper c then char_of ((of_char c :: nat) + 32) else c)"

text \<open>
  The method call \<open>v.toLowerCase()\<close>: on a string the lower-cased string; on
  \<open>undefined\<close> and \<open>null\<close> the property read raises a TypeError; on every other value
  the property is not a function and the call raises a TypeError.
\<close>

fun toLowerCase :: "jsval \<Rightarrow> error + string" where
  "toLowerCase (Str s) = Inr (map toLowerCase_char s)"
| "toLowerCase v = Inl TypeError"

section \<open>Question types (src/index.js, lines 56-105)\<close>

text \<open>
  \<open>mark\<close> of the type \<open>free\<close> (line 85):
  \<open>question.answer.toLowerCase() === answer.toLowerCase()\<close>, the left operand first.
\<close>

definition free_mark :: "jsval \<Rightarrow> jsval \<Rightarrow> error + bool" where
  "free_mark question answer =
     (case get question ''answer'' of
        Inl e \<Rightarrow> Inl e
      | Inr a \<Rightarrow>
          (case toLowerCase a of
             Inl e \<Rightarrow> Inl e
           | Inr l \<Rightarrow> (case toLowerCase answer of Inl e \<Rightarrow> Inl e | Inr r \<Rightarrow> Inr (l = r))))"

text \<open>\<open>mark\<close> of the type \<open>multiple\<close> (line 104): \<open>question.answer == answer\<close>.\<close>

definition multiple_mark :: "jsval \<Rightarrow> jsval \<Rightarrow> error + bool" where
  "multiple_mark question answer =
     (case get question ''answer'' of
        Inl e \<Rightarrow> Inl e
      | Inr a \<Rightarrow> loose_eq a answer)"




section \<open>\<open>JSON.stringify\<close> and \<open>JSON.parse\<close>\<close>

text \<open>
  \<open>QuoteJSONString\<close>: the quotation mark and the backslash are escaped, the control
  characters below 32 are written \<open>\b\<close>, \<open>\t\<close>, \<open>\n\<close>, \<open>\f\<close>, \<open>\r\<close> or
  \<open>\u00xx\<close> with lower-case hexadecimal digits, every other code unit stands for
  itself.
\<close>

definition hex_char :: "nat \<Rightarrow> char" where
  "hex_char n = ''0123456789abcdef'' ! (n mod 16)"

definition escape_char :: "char \<Rightarrow> string" where
  "escape_char c =
     (let n = (of_char c :: nat) in
      if n = 8 then [CHR 0x5C, CHR ''b'']
      else if n = 9 then [CHR 0x5C, CHR ''t'']
      else if n = 10 then [CHR 0x5C, CHR ''n'']
      else if n = 12 then [CHR 0x5C, CHR ''f'']
      else if n = 13 then [CHR 0x5C, CHR ''r'']
      else if n = 34 then [CHR 0x5C, CHR 0x22]
      else if n = 92 then [CHR 0x5C, CHR 0x5C]
      else if n < 32 then [CHR 0x5C, CHR ''u'', CHR ''0'', CHR ''0'', hex_char (n div 16), hex_char n]
      else [c])"

definition quote :: "string \<Rightarrow> string" where
  "quote s = CHR 0x22 # concat (map escape_char s) @ [CHR 0x22]"

text \<open>
  \<open>JSON.stringify(value)\<close> with no replacer and no indentation. \<open>None\<close> is the result
  \<open>undefined\<close>. A property whose value is \<open>undefined\<close> is left out of an object; an
  \<open>undefined\<close> element of an array is written \<open>null\<close>. The values here hold no
  functions, so no \<open>toJSON\<close> is ever called.
\<close>

fun stringify :: "jsval \<Rightarrow> string option"
  and stringify_elements :: "jsval list \<Rightarrow> string list"
  and stringify_members :: "(string \<times> jsval) list \<Rightarrow> string list" where
  "stringify Undefined = None"
| "stringify Null = Some ''null''"
| "stringify (Bool b) = Some (if b then ''true'' else ''false'')"
| "stringify (Num n) = Some (show_int n)"
| "stringify (Str s) = Some (quote s)"
| "stringify (Arr xs) = Some (CHR ''['' # join (stringify_elements xs) @ '']'')"
| "stringify (Obj kvs) = Some (CHR ''{'' # join (stringify_members kvs) @ ''}'')"
| "stringify_elements [] = []"
| "stringify_elements (x # xs) =
     (case stringify x of None \<Rightarrow> ''null'' | Some t \<Rightarrow> t) # stringify_elements xs"
| "stringify_members [] = []"
| "stringify_members ((k, v) # kvs) =
     (case stringify v of
        None \<Rightarrow> stringify_members kvs
      | Some t \<Rightarrow> (quote k @ CHR '':'' # t) # stringify_members kvs)"

text \<open>
  \<open>JSON.parse(text)\<close>, by recursive descent. White space between tokens is space,
  tab, line feed and carriage return.
\<close>

definition json_ws :: "char \<Rightarrow> bool" where
  "json_ws c = ((of_char c :: nat) \<in> {32, 9, 10, 13})"

definition skip_ws :: "string \<Rightarrow> string" where
  "skip_ws cs = dropWhile json_ws cs"

definition hex_val :: "char \<Rightarrow> nat option" where
  "hex_val c =
     (let n = (of_char c :: nat) in
      if 48 \<le> n \<and> n \<le> 57 then Some (n - 48)
      else if 97 \<le> n \<and> n \<le> 102 then Some (n - 87)
      else if 65 \<le> n \<and> n \<le> 70 then Some (n - 55)
      else None)"

fun hex4 :: "string \<Rightarrow> nat option" where
  "hex4 [a, b, c, d] =
     (case (hex_val a, hex_val b, hex_val c, hex_val d) of
        (Some w, Some x, Some y, Some z) \<Rightarrow> Some (((w * 16 + x) * 16 + y) * 16 + z)
      | _ \<Rightarrow> None)"
| "hex4 cs = None"

definition unescape :: "char \<Rightarrow> char option" where
  "unescape e =
     (if e = CHR 0x22 then Some (CHR 0x22)
      else if e = CHR 0x5C then Some (CHR 0x5C)
      else if e = CHR ''/'' then Some (CHR ''/'')
      else if e = CHR ''b'' then Some (CHR 0x08)
      else if e = CHR ''f'' then Some (CHR 0x0C)
      else if e = CHR ''n'' then Some (CHR 0x0A)
      else if e = CHR ''r'' then Some (CHR 0x0D)
      else if e = CHR ''t'' then Some (CHR 0x09)
      else None)"

definition cons_result :: "char \<Rightarrow> error + string \<times> string \<Rightarrow> error + string \<times> string" where
  "cons_result c r = (case r of Inl e \<Rightarrow> Inl e | Inr (s, rest) \<Rightarrow> Inr (c # s, rest))"

text \<open>
  The characters of a string after its opening quotation mark, up to the closing one.
  An escape \<open>\uXXXX\<close> of a code unit from 256 on has no representation here.
\<close>

fun parse_string_body :: "string \<Rightarrow> error + string \<times> string" where
  "parse_string_body [] = Inl SyntaxError"
| "parse_string_body (c # cs) =
     (if c = CHR 0x22 then Inr ([], cs)
      else if c = CHR 0x5C then
        (case cs of
           [] \<Rightarrow> Inl SyntaxError
         | e # r \<Rightarrow>
             if e = CHR ''u'' then
               (case hex4 (take 4 r) of
                  None \<Rightarrow> Inl SyntaxError
                | Some n \<Rightarrow>
                    if n < 256 then cons_result (char_of n) (parse_string_body (drop 4 r))
                    else Inl OutsideModel)
             else
               (case unescape e of
                  None \<Rightarrow> Inl SyntaxError
                | Some ch \<Rightarrow> cons_result ch (parse_string_body r)))
      else if (of_char c :: nat) < 32 then Inl SyntaxError
      else cons_result c (parse_string_body cs))"

text \<open>
  A number: an optional minus sign, then \<open>0\<close> or digits not starting with \<open>0\<close>. A
  fraction or an exponent, or an integer above \<open>2^53\<close>, is outside the model. The
  number \<open>-0\<close> is not told apart from \<open>0\<close>.
\<close>

definition parse_number :: "string \<Rightarrow> error + jsval \<times> string" where
  "parse_number cs =
     (let negative = (cs \<noteq> [] \<and> hd cs = CHR ''-'');
          r = (if negative then tl cs else cs);
          ds = takeWhile is_digit r;
          rest = dropWhile is_digit r
      in if ds = [] then Inl SyntaxError
         else if length ds > 1 \<and> hd ds = CHR ''0'' then Inl SyntaxError
         else if rest \<noteq> [] \<and> hd rest \<in> set ''.eE'' then Inl OutsideModel
         else if digits_value ds > MAX_SAFE then Inl OutsideModel
         else Inr (Num (if negative then - digits_value ds else digits_value ds),
                   rest))"

definition parse_literal :: "string \<Rightarrow> jsval \<Rightarrow> string \<Rightarrow> error + jsval \<times> string" where
  "parse_literal word v cs =
     (if take (length word) cs = word then Inr (v, drop (length word) cs) else Inl SyntaxError)"

text \<open>
  The properties of a parsed object are created in the order of the text; a repeated
  key overwrites the value and keeps its place. A key that is an array index would be
  enumerated before the others whatever its place in the text: such an object is
  outside the model.
\<close>

definition is_array_index :: "string \<Rightarrow> bool" where
  "is_array_index k =
     (k \<noteq> [] \<and> list_all is_digit k \<and> (k = ''0'' \<or> hd k \<noteq> CHR ''0'') \<and>
      digits_value k < 2 ^ 32 - 1)"

definition build_object :: "(string \<times> jsval) list \<Rightarrow> error + jsval" where
  "build_object ms =
     (if list_ex is_array_index (map fst ms) then Inl OutsideModel
      else Inr (Obj (foldl (\<lambda>obj (k, v). AList.update k v obj) [] ms)))"

text \<open>
  The first argument bounds the depth of the recursion; \<open>JSON_parse\<close> starts it above
  the length of the text. Running out of it gives \<open>OutsideModel\<close>.
\<close>

fun parse_value :: "nat \<Rightarrow> string \<Rightarrow> error + jsval \<times> string"
  and parse_elements :: "nat \<Rightarrow> string \<Rightarrow> error + jsval list \<times> string"
  and parse_members :: "nat \<Rightarrow> string \<Rightarrow> error + (string \<times> jsval) list \<times> string" where
  "parse_value 0 cs = Inl OutsideModel"
| "parse_value (Suc n) cs =
     (case skip_ws cs of
        [] \<Rightarrow> Inl SyntaxError
      | c # r \<Rightarrow>
          if c = CHR 0x22 then
            (case parse_string_body r of Inl e \<Rightarrow> Inl e | Inr (s, rest) \<Rightarrow> Inr (Str s, rest))
          else if c = CHR ''['' then
            (case skip_ws r of
               [] \<Rightarrow> Inl SyntaxError
             | d # r' \<Rightarrow>
                 if d = CHR '']'' then Inr (Arr [], r')
                 else (case parse_elements n r of
                         Inl e \<Rightarrow> Inl e
                       | Inr (vs, rest) \<Rightarrow> Inr (Arr vs, rest)))
          else if c = CHR ''{'' then
            (case skip_ws r of
               [] \<Rightarrow> Inl SyntaxError
             | d # r' \<Rightarrow>
                 if d = CHR ''}'' then Inr (Obj [], r')
                 else (case parse_members n r of
                         Inl e \<Rightarrow> Inl e
                       | Inr (ms, rest) \<Rightarrow>
                           (case build_object ms of
                              Inl e \<Rightarrow> Inl e
                            | Inr obj \<Rightarrow> Inr (obj, rest))))
          else if c = CHR ''t'' then parse_literal ''true'' (Bool True) (c # r)
          else if c = CHR ''f'' then parse_literal ''false'' (Bool False) (c # r)
          else if c = CHR ''n'' then parse_literal ''null'' Null (c # r)
          else if c = CHR ''-'' \<or> is_digit c then parse_number (c # r)
          else Inl SyntaxError)"
| "parse_elements 0 cs = Inl OutsideModel"
| "parse_elements (Suc n) cs =
     (case parse_value n cs of
        Inl e \<Rightarrow> Inl e
      | Inr (v, r) \<Rightarrow>
          (case skip_ws r of
             [] \<Rightarrow> Inl SyntaxError
           | d # r' \<Rightarrow>
               if d = CHR '','' then
                 (case parse_elements n r' of
                    Inl e \<Rightarrow> Inl e
                  | Inr (vs, rest) \<Rightarrow> Inr (v # vs, rest))
               else if d = CHR '']'' then Inr ([v], r')
               else Inl SyntaxError))"
| "parse_members 0 cs = Inl OutsideModel"
| "parse_members (Suc n) cs =
     (case skip_ws cs of
        [] \<Rightarrow> Inl SyntaxError
      | q # r \<Rightarrow>
          if q \<noteq> CHR 0x22 then Inl SyntaxError
          else
            (case parse_string_body r of
               Inl e \<Rightarrow> Inl e
             | Inr (k, r1) \<Rightarrow>
                 (case skip_ws r1 of
                    [] \<Rightarrow> Inl SyntaxError
                  | c # r2 \<Rightarrow>
                      if c \<noteq> CHR '':'' then Inl SyntaxError
                      else
                        (case parse_value n r2 of
                           Inl e \<Rightarrow> Inl e
                         | Inr (v, r3) \<Rightarrow>
                             (case skip_ws r3 of
                                [] \<Rightarrow> Inl SyntaxError
                              | d # r4 \<Rightarrow>
                                  if d = CHR '','' then
                                    (case parse_members n r4 of
                                       Inl e \<Rightarrow> Inl e
                                     | Inr (ms, rest) \<Rightarrow> Inr ((k, v) # ms, rest))
                                  else if d = CHR ''}'' then Inr ([(k, v)], r4)
                                  else Inl SyntaxError)))))"

definition JSON_parse :: "string \<Rightarrow> error + jsval" where
  "JSON_parse text =
     (case parse_value (Suc (length text)) text of
        Inl e \<Rightarrow> Inl e
      | Inr (v, rest) \<Rightarrow> if skip_ws rest = [] then Inr v else Inl SyntaxError)"

section \<open>Export and import of a quiz (src/index.js, lines 107-111 and 134-137)\<close>

text \<open>
  \<open>Buffer.from(json)\<close> encodes the string in UTF-8: a code unit below 128 is one byte,
  a code unit from 128 to 255 is two. Bytes are natural numbers below 256.
\<close>

fun utf8_encode :: "string \<Rightarrow> nat list" where
  "utf8_encode [] = []"
| "utf8_encode (c # cs) =
     (if (of_char c :: nat) < 128 then [of_char c]
      else [192 + of_char c div 64, 128 + of_char c mod 64]) @ utf8_encode cs"

text \<open>
  \<open>buffer.toString()\<close>, which \<open>JSON.parse\<close> applies to its argument, decodes UTF-8.
  A sequence that is invalid, or that encodes a code point from 256 on, gives a
  character that has no representation here.
\<close>

fun utf8_decode :: "nat list \<Rightarrow> error + string" where
  "utf8_decode [] = Inr []"
| "utf8_decode (b # bs) =
     (if b < 128 then
        (case utf8_decode bs of Inl e \<Rightarrow> Inl e | Inr s \<Rightarrow> Inr (char_of b # s))
      else if b = 194 \<or> b = 195 then
        (case bs of
           [] \<Rightarrow> Inl OutsideModel
         | c # r \<Rightarrow>
             if 128 \<le> c \<and> c < 192 then
               (case utf8_decode r of
                  Inl e \<Rightarrow> Inl e
                | Inr s \<Rightarrow> Inr (char_of ((b - 192) * 64 + (c - 128)) # s))
             else Inl OutsideModel)
      else Inl OutsideModel)"

text \<open>\<open>buffer.toString("base64")\<close>: three bytes give four characters, with padding.\<close>

definition base64_char :: "nat \<Rightarrow> char" where
  "base64_char n =
     ''ABCDEFGHIJKLMNOPQRSTUVWXYZabcdefghijklmnopqrstuvwxyz0123456789+/'' ! (n mod 64)"

fun base64_encode :: "nat list \<Rightarrow> string" where
  "base64_encode [] = []"
| "base64_encode [a] =
     [base64_char (a div 4), base64_char (a mod 4 * 16), CHR ''='', CHR ''='']"
| "base64_encode [a, b] =
     [base64_char (a div 4), base64_char (a mod 4 * 16 + b div 16),
      base64_char (b mod 16 * 4), CHR ''='']"
| "base64_encode (a # b # c # bs) =
     [base64_char (a div 4), base64_char (a mod 4 * 16 + b div 16),
      base64_char (b mod 16 * 4 + c div 64), base64_char (c mod 64)] @ base64_encode bs"

text \<open>\<open>jsonToDataURI\<close> (lines 134-137).\<close>

definition jsonToDataURI :: "string \<Rightarrow> string" where
  "jsonToDataURI json = ''data:application/json;base64,'' @ base64_encode (utf8_encode json)"

section \<open>The quiz procedures (src/index.js, lines 56-179)\<close>

text \<open>
  A request as the procedures read it: the query parameters, the bytes of the uploaded
  file if there is one (\<open>req.files.file.data\<close>), and what \<open>Date.now()\<close> returns while
  the request is handled (each procedure calls it at most once between two
  suspensions).
\<close>

record request =
  query :: "(string \<times> jsval) list"
  file_data :: "nat list option"
  now :: int

definition param :: "request \<Rightarrow> string \<Rightarrow> jsval" where
  "param req name = (case map_of (query req) name of Some v \<Rightarrow> v | None \<Rightarrow> Undefined)"

text \<open>
  The table \<open>questionTypes\<close> after the two calls of \<open>registerQuestionType\<close>. An index
  expression \<open>questionTypes[x]\<close> converts \<open>x\<close> to a property key. For a key other than
  \<open>free\<close> and \<open>multiple\<close> the result is \<open>undefined\<close>, or a member inherited from
  \<open>Object.prototype\<close> that has no usable \<open>create\<close>, \<open>present\<close> or \<open>mark\<close>; the
  method call that follows raises a TypeError in both cases.
\<close>

datatype qtype = Free | Multiple

definition questionTypes :: "string \<Rightarrow> qtype option" where
  "questionTypes key =
     (if key = ''free'' then Some Free else if key = ''multiple'' then Some Multiple else None)"

definition lookup_type :: "jsval \<Rightarrow> error + qtype" where
  "lookup_type x =
     (case ToString x of
        Inl e \<Rightarrow> Inl e
      | Inr key \<Rightarrow> (case questionTypes key of None \<Rightarrow> Inl TypeError | Some t \<Rightarrow> Inr t))"

fun present :: "qtype \<Rightarrow> string" where
  "present Free = ''present-free-text.pug''"
| "present Multiple = ''present-multiple-choice.pug''"

fun mark :: "qtype \<Rightarrow> jsval \<Rightarrow> jsval \<Rightarrow> error + bool" where
  "mark Free question answer = free_mark question answer"
| "mark Multiple question answer = multiple_mark question answer"

text \<open>
  The question a \<open>create\<close> dialog returns once its form comes back (lines 78-81 and
  95-99), with the \<open>type\<close> that the wrapper of \<open>registerQuestionType\<close> assigns (line 68).
\<close>

fun create_question :: "qtype \<Rightarrow> request \<Rightarrow> jsval" where
  "create_question Free req =
     Obj [(''text'', param req ''question''), (''answer'', param req ''answer''),
          (''type'', Str ''free'')]"
| "create_question Multiple req =
     Obj [(''text'', param req ''question''), (''answer'', param req ''correctIndex''),
          (''choices'',
             Arr (map (param req) [''choice1'', ''choice2'', ''choice3'', ''choice4'', ''choice5''])),
          (''type'', Str ''multiple'')]"

text \<open>
  What a suspension shows: the template and the options the source passes to it. Times
  are in milliseconds; the source divides them by 1000.
\<close>

record stat =
  stat_question :: jsval
  responseTime :: int
  correct :: bool

datatype page =
    NewQuizPage
  | LoadQuizPage
  | OverviewPage jsval string
  | AddQuestionPage
  | AddMultipleChoicePage
  | PresentPage string jsval jsval jsval
  | FeedbackPage jsval bool int jsval jsval
  | FinishedPage jsval jsval int nat

text \<open>
  The rest of a procedure at each \<open>await\<close>: this is what the resolve function stored
  in the registry continues with.
\<close>

datatype cont =
    K_new
  | K_load
  | K_overview jsval
  | K_create qtype jsval
  | K_present jsval "jsval list" "stat list" jsval int
  | K_feedback jsval "jsval list" "stat list"
  | K_finished jsval

text \<open>
  \<open>manageQuiz\<close> up to its suspension (lines 121-123): the overview, with the download
  link made from \<open>JSON.stringify(quiz)\<close>. \<open>Buffer.from(undefined)\<close> raises a TypeError.
\<close>

definition manageQuiz :: "jsval \<Rightarrow> error + page \<times> cont" where
  "manageQuiz quiz =
     (case stringify quiz of
        None \<Rightarrow> Inl TypeError
      | Some json \<Rightarrow> Inr (OverviewPage quiz (jsonToDataURI json), K_overview quiz))"

text \<open>\<open>quiz.questions.push(question)\<close> (line 127): a TypeError unless it is an array.\<close>

definition push_question :: "jsval \<Rightarrow> jsval \<Rightarrow> error + jsval" where
  "push_question quiz question =
     (case quiz of
        Obj kvs \<Rightarrow>
          (case map_of kvs ''questions'' of
             Some (Arr qs) \<Rightarrow> Inr (Obj (AList.update ''questions'' (Arr (qs @ [question])) kvs))
           | _ \<Rightarrow> Inl TypeError)
      | _ \<Rightarrow> Inl TypeError)"

text \<open>
  The values \<open>for (const question of quiz.questions)\<close> runs over: the elements of an
  array, the characters of a string; any other value is not iterable.
\<close>

definition iterate :: "jsval \<Rightarrow> error + jsval list" where
  "iterate v =
     (case v of
        Arr xs \<Rightarrow> Inr xs
      | Str s \<Rightarrow> Inr (map (\<lambda>c. Str [c]) s)
      | _ \<Rightarrow> Inl TypeError)"

text \<open>
  \<open>array.reduce(add)\<close> with \<open>add = (a,b) => a+b\<close> and no initial value (lines
  168-170): a TypeError on the empty array, the only element when there is one, and
  otherwise the sum from the left. \<open>+\<close> on booleans and numbers adds them as numbers.
\<close>

fun to_number :: "jsval \<Rightarrow> error + int" where
  "to_number (Bool b) = Inr (if b then 1 else 0)"
| "to_number (Num n) = Inr n"
| "to_number v = Inl OutsideModel"

definition add :: "jsval \<Rightarrow> jsval \<Rightarrow> error + jsval" where
  "add a b =
     (case to_number a of
        Inl e \<Rightarrow> Inl e
      | Inr x \<Rightarrow> (case to_number b of Inl e \<Rightarrow> Inl e | Inr y \<Rightarrow> Inr (Num (x + y))))"

fun reduce_from :: "jsval \<Rightarrow> jsval list \<Rightarrow> error + jsval" where
  "reduce_from acc [] = Inr acc"
| "reduce_from acc (x # xs) =
     (case add acc x of Inl e \<Rightarrow> Inl e | Inr acc' \<Rightarrow> reduce_from acc' xs)"

definition reduce :: "jsval list \<Rightarrow> error + jsval" where
  "reduce xs = (case xs of [] \<Rightarrow> Inl TypeError | x # rest \<Rightarrow> reduce_from x rest)"

definition reduce_time :: "int list \<Rightarrow> error + int" where
  "reduce_time ts = (case ts of [] \<Rightarrow> Inl TypeError | t # rest \<Rightarrow> Inr (foldl (+) t rest))"

text \<open>
  The body of \<open>playQuiz\<close> from the head of the \<open>for\<close> loop (line 143) to the next
  suspension: the next question is presented (lines 144-150), or, when none is left,
  the summary is computed and shown (lines 168-174).
\<close>

definition play_from :: "jsval \<Rightarrow> jsval list \<Rightarrow> stat list \<Rightarrow> int \<Rightarrow> error + page \<times> cont" where
  "play_from quiz remaining stats t =
     (case remaining of
        question # rest \<Rightarrow>
          (case get question ''type'' of
             Inl e \<Rightarrow> Inl e
           | Inr ty \<Rightarrow>
               (case lookup_type ty of
                  Inl e \<Rightarrow> Inl e
                | Inr qt \<Rightarrow>
                    (case get quiz ''title'' of
                       Inl e \<Rightarrow> Inl e
                     | Inr title \<Rightarrow>
                         Inr (PresentPage (present qt) title quiz question,
                              K_present quiz rest stats question t))))
      | [] \<Rightarrow>
          (case reduce (map (\<lambda>st. Bool (correct st)) stats) of
             Inl e \<Rightarrow> Inl e
           | Inr answersCorrect \<Rightarrow>
               (case reduce_time (map responseTime stats) of
                  Inl e \<Rightarrow> Inl e
                | Inr totalTime \<Rightarrow>
                    (case get quiz ''title'' of
                       Inl e \<Rightarrow> Inl e
                     | Inr title \<Rightarrow>
                         Inr (FinishedPage title answersCorrect totalTime (length stats),
                              K_finished quiz)))))"

text \<open>\<open>playQuiz\<close> from its start (lines 139-143): \<open>stats\<close> is empty.\<close>

definition playQuiz :: "jsval \<Rightarrow> int \<Rightarrow> error + page \<times> cont" where
  "playQuiz quiz t =
     (case get quiz ''questions'' of
        Inl e \<Rightarrow> Inl e
      | Inr qs \<Rightarrow>
          (case iterate qs of Inl e \<Rightarrow> Inl e | Inr questions \<Rightarrow> play_from quiz questions [] t))"

text \<open>
  One resumption: the procedure runs from the \<open>await\<close> it was suspended at, with the
  request that resumed it, to its next suspension (\<open>Inr\<close>, the page sent and the new
  continuation) or to an exception nothing catches (\<open>Inl\<close>: the promise of the
  procedure is rejected and no response is sent).
\<close>

fun resume :: "cont \<Rightarrow> request \<Rightarrow> error + page \<times> cont" where
  "resume K_new req =
     manageQuiz (Obj [(''title'', param req ''quizTitle''), (''questions'', Arr [])])"
| "resume K_load req =
     (case file_data req of
        None \<Rightarrow> Inl TypeError
      | Some bytes \<Rightarrow>
          (case utf8_decode bytes of
             Inl e \<Rightarrow> Inl e
           | Inr text \<Rightarrow>
               (case JSON_parse text of Inl e \<Rightarrow> Inl e | Inr quiz \<Rightarrow> manageQuiz quiz)))"
| "resume (K_overview quiz) req =
     (if truthy (param req ''addQuestion'') then
        (case lookup_type (param req ''type'') of
           Inl e \<Rightarrow> Inl e
         | Inr Free \<Rightarrow> Inr (AddQuestionPage, K_create Free quiz)
         | Inr Multiple \<Rightarrow> Inr (AddMultipleChoicePage, K_create Multiple quiz))
      else if truthy (param req ''playQuiz'') then playQuiz quiz (now req)
      else manageQuiz quiz)"
| "resume (K_create qt quiz) req =
     (case push_question quiz (create_question qt req) of
        Inl e \<Rightarrow> Inl e
      | Inr quiz' \<Rightarrow> manageQuiz quiz')"
| "resume (K_present quiz rest stats question startTime) req =
     (case get question ''type'' of
        Inl e \<Rightarrow> Inl e
      | Inr ty \<Rightarrow>
          (case lookup_type ty of
             Inl e \<Rightarrow> Inl e
           | Inr qt \<Rightarrow>
               (case mark qt question (param req ''answer'') of
                  Inl e \<Rightarrow> Inl e
                | Inr c \<Rightarrow>
                    (case get quiz ''title'' of
                       Inl e \<Rightarrow> Inl e
                     | Inr title \<Rightarrow>
                         Inr (FeedbackPage title c (now req - startTime)
                                (param req ''answer'') question,
                              K_feedback quiz rest
                                (stats @ [\<lparr>stat_question = question,
                                           responseTime = now req - startTime,
                                           correct = c\<rparr>]))))))"
| "resume (K_feedback quiz rest stats) req = play_from quiz rest stats (now req)"
| "resume (K_finished quiz) req =
     (if truthy (param req ''overview'') then manageQuiz quiz else playQuiz quiz (now req))"

text \<open>The handlers of \<open>/new\<close> and \<open>/load\<close> up to their first suspension.\<close>

definition new_handler :: "page \<times> cont" where
  "new_handler = (NewQuizPage, K_new)"

definition load_handler :: "page \<times> cont" where
  "load_handler = (LoadQuizPage, K_load)"

text \<open>A session: the resumptions one after another, stopping at the first exception.\<close>

fun session :: "cont \<Rightarrow> request list \<Rightarrow> page list \<times> (error + cont)" where
  "session k [] = ([], Inr k)"
| "session k (req # reqs) =
     (case resume k req of
        Inl e \<Rightarrow> ([], Inl e)
      | Inr (pg, k') \<Rightarrow> (case session k' reqs of (pgs, r) \<Rightarrow> (pg # pgs, r)))"





section \<open>Properties of the registry\<close>

lemma uuid_not_proto: "uuid_format t \<Longrightarrow> t \<notin> set Object_prototype_names"
  by (auto simp: uuid_format_def Object_prototype_names_def)

lemma evict_noop: "uuids s = [] \<Longrightarrow> evict s = s"
  by (subst evict.simps) (simp add: MAX_CONTINUATIONS_def)

lemma keys_update: "fst ` set (AList.update k v al) = insert k (fst ` set al)"
  by (induction al) auto

lemma keys_delete: "fst ` set (AList.delete k al) = fst ` set al - {k}"
  by (induction al) auto

lemma map_of_keys: "map_of al t = Some k \<Longrightarrow> t \<in> fst ` set al"
  by (metis map_of_eq_None_iff option.distinct(1))

lemma map_of_not_keys: "t \<notin> fst ` set al \<Longrightarrow> map_of al t = None"
  by (simp add: map_of_eq_None_iff)

lemma update_fresh: "k \<notin> fst ` set al \<Longrightarrow> AList.update k v al = al @ [(k, v)]"
  by (induction al) auto

lemma length_run: "length (run s evs) = length evs"
  by (induction evs arbitrary: s) auto

text \<open>Eviction and the handler only ever remove keys; a suspension adds its own id.\<close>

lemma keys_evict: "fst ` set (continuations (evict s)) \<subseteq> fst ` set (continuations s)"
proof (induction s rule: evict.induct)
  case (1 s)
  show ?case
  proof (cases "length (uuids s) > MAX_CONTINUATIONS")
    case True
    have "fst ` set (continuations (evict s)) =
          fst ` set (continuations (evict (s\<lparr>uuids := tl (uuids s),
                    continuations := AList.delete (hd (uuids s)) (continuations s)\<rparr>)))"
      using True by (subst evict.simps) simp
    also have "\<dots> \<subseteq> fst ` set (AList.delete (hd (uuids s)) (continuations s))"
      using 1[OF True] by simp
    also have "\<dots> \<subseteq> fst ` set (continuations s)"
      by (auto simp: keys_delete)
    finally show ?thesis .
  next
    case False
    then show ?thesis by (subst evict.simps) simp
  qed
qed

lemma keys_sendSuspend:
  "fst ` set (continuations (snd (sendSuspend t k s))) \<subseteq> insert t (fst ` set (continuations s))"
proof -
  have "fst ` set (continuations (snd (sendSuspend t k s))) =
        insert t (fst ` set (continuations (evict (s\<lparr>uuids := push_indexed (uuids s) t\<rparr>))))"
    by (simp add: sendSuspend_def Let_def keys_update)
  then show ?thesis
    using keys_evict[of "s\<lparr>uuids := push_indexed (uuids s) t\<rparr>"] by auto
qed

lemma keys_continue_request:
  "fst ` set (continuations (snd (continue_request t s))) \<subseteq> fst ` set (continuations s)"
  by (auto simp: continue_request_def keys_delete split: lookup.splits)

lemma keys_step_Continue:
  "fst ` set (continuations (snd (step (Continue t) s))) \<subseteq> fst ` set (continuations s)"
  using keys_continue_request[of t s] by (cases "continue_request t s") simp

lemma keys_step:
  "fst ` set (continuations (snd (step e s))) \<subseteq> fst ` set (continuations s) \<union> set (minted [e])"
proof (cases e)
  case (Suspend t0 k0)
  then show ?thesis using keys_sendSuspend[of t0 k0 s] by auto
next
  case (Continue t0)
  then show ?thesis using keys_step_Continue[of t0 s] by auto
qed

lemma minted_Cons: "minted (e # es) = minted [e] @ minted es"
  by (cases e) auto

text \<open>
  A request with an id that is neither an own key nor a name inherited from
  \<open>Object.prototype\<close> gets the notice and leaves the registry as it was.
\<close>

lemma continue_absent:
  "t \<notin> fst ` set (continuations s) \<Longrightarrow> t \<notin> set Object_prototype_names \<Longrightarrow>
   continue_request t s = (Expired, s)"
  by (simp add: continue_request_def property_lookup_def map_of_not_keys)

lemma continue_resumed_removes:
  "fst (continue_request t s) = Resumed k \<Longrightarrow>
   t \<in> fst ` set (continuations s) \<and> t \<notin> fst ` set (continuations (snd (continue_request t s)))"
  by (auto simp: continue_request_def property_lookup_def keys_delete
           split: option.splits if_splits dest: map_of_keys)

lemma later_requests_expired:
  "t \<notin> fst ` set (continuations s) \<Longrightarrow> t \<notin> set Object_prototype_names \<Longrightarrow>
   t \<notin> set (minted evs) \<Longrightarrow> j < length evs \<Longrightarrow> evs ! j = Continue t \<Longrightarrow>
   run s evs ! j = Some Expired"
proof (induction evs arbitrary: s j)
  case Nil
  then show ?case by simp
next
  case (Cons e es)
  have nm: "t \<notin> set (minted [e])" "t \<notin> set (minted es)"
    using Cons.prems(3) by (simp_all add: minted_Cons[of e es])
  have absent': "t \<notin> fst ` set (continuations (snd (step e s)))"
    using keys_step[of e s] Cons.prems(1) nm(1) by blast
  show ?case
  proof (cases j)
    case 0
    with Cons.prems have "e = Continue t" by simp
    then show ?thesis using 0 continue_absent[OF Cons.prems(1,2)] by simp
  next
    case (Suc j')
    then show ?thesis using Cons.IH[OF absent' Cons.prems(2) nm(2), of j'] Cons.prems by simp
  qed
qed

lemma no_resumption_when_absent:
  assumes "t \<notin> fst ` set (continuations s)" "t \<notin> set Object_prototype_names"
          "t \<notin> set (minted evs)"
  shows "filter (resumes t) (zip evs (run s evs)) = []"
proof -
  have "\<not> resumes t p" if pz: "p \<in> set (zip evs (run s evs))" for p
  proof -
    obtain j where j: "j < length evs" "p = (evs ! j, run s evs ! j)"
      using pz by (auto simp: in_set_conv_nth length_run)
    show ?thesis
    proof (cases "evs ! j = Continue t")
      case True
      then show ?thesis using later_requests_expired[OF assms j(1)] j(2) by simp
    next
      case False
      then show ?thesis using j(2) by (cases "(t, p)" rule: resumes.cases) auto
    qed
  qed
  then show ?thesis by (simp add: filter_empty_conv)
qed

text \<open>
  The invariant of a history run from a registry \<open>s\<close>: the ids still to be minted are
  distinct and none is a key of \<open>s\<close>, and no id is a name of \<open>Object.prototype\<close>.
\<close>

lemma invariant_step:
  assumes "distinct (minted (e # es))"
      and "fst ` set (continuations s) \<inter> set (minted (e # es)) = {}"
      and "\<forall>t \<in> fst ` set (continuations s) \<union> set (minted (e # es)).
             t \<notin> set Object_prototype_names"
  shows "distinct (minted es)"
    and "fst ` set (continuations (snd (step e s))) \<inter> set (minted es) = {}"
    and "\<forall>t \<in> fst ` set (continuations (snd (step e s))) \<union> set (minted es).
             t \<notin> set Object_prototype_names"
proof -
  show "distinct (minted es)" using assms(1) by (simp add: minted_Cons[of e es])
  show "fst ` set (continuations (snd (step e s))) \<inter> set (minted es) = {}"
    using keys_step[of e s] assms(1,2) by (auto simp: minted_Cons[of e es])
  show "\<forall>t \<in> fst ` set (continuations (snd (step e s))) \<union> set (minted es).
             t \<notin> set Object_prototype_names"
    using keys_step[of e s] assms(3) by (auto simp: minted_Cons[of e es])
qed

lemma resumed_once_general:
  "distinct (minted evs) \<Longrightarrow> fst ` set (continuations s) \<inter> set (minted evs) = {} \<Longrightarrow>
   \<forall>t \<in> fst ` set (continuations s) \<union> set (minted evs). t \<notin> set Object_prototype_names \<Longrightarrow>
   i < j \<Longrightarrow> j < length evs \<Longrightarrow> evs ! i = Continue t \<Longrightarrow> run s evs ! i = Some (Resumed k) \<Longrightarrow>
   evs ! j = Continue t \<Longrightarrow> run s evs ! j = Some Expired"
proof (induction evs arbitrary: s i j)
  case Nil
  then show ?case by simp
next
  case (Cons e es)
  obtain j' where j: "j = Suc j'" using Cons.prems(4) by (cases j) auto
  show ?case
  proof (cases i)
    case 0
    with Cons.prems have e: "e = Continue t" by simp
    with 0 Cons.prems(7) have r: "fst (continue_request t s) = Resumed k"
      by (simp split: prod.splits)
    from continue_resumed_removes[OF r]
    have in_s: "t \<in> fst ` set (continuations s)"
      and gone: "t \<notin> fst ` set (continuations (snd (step e s)))"
      by (auto simp: e split: prod.splits)
    have np: "t \<notin> set Object_prototype_names" using Cons.prems(3) in_s by blast
    have nm: "t \<notin> set (minted es)" using Cons.prems(2) in_s e by auto
    show ?thesis
      using later_requests_expired[OF gone np nm, of j'] Cons.prems(5,8) j by simp
  next
    case (Suc i')
    note inv = invariant_step[OF Cons.prems(1,2,3)]
    show ?thesis
      using Cons.IH[OF inv, of i' j'] Cons.prems(4-8) Suc j by simp
  qed
qed

lemma resumed_count_general:
  "distinct (minted evs) \<Longrightarrow> fst ` set (continuations s) \<inter> set (minted evs) = {} \<Longrightarrow>
   \<forall>t \<in> fst ` set (continuations s) \<union> set (minted evs). t \<notin> set Object_prototype_names \<Longrightarrow>
   length (filter (resumes t) (zip evs (run s evs))) \<le> 1"
proof (induction evs arbitrary: s)
  case Nil
  then show ?case by simp
next
  case (Cons e es)
  note inv = invariant_step[OF Cons.prems(1,2,3)]
  show ?case
  proof (cases "resumes t (e, fst (step e s))")
    case False
    then show ?thesis using Cons.IH[OF inv] by simp
  next
    case True
    then obtain k where e: "e = Continue t" and r: "fst (step e s) = Some (Resumed k)"
      by (cases "(t, (e, fst (step e s)))" rule: resumes.cases) auto
    from r e have r': "fst (continue_request t s) = Resumed k"
      by (cases "continue_request t s") simp
    from continue_resumed_removes[OF r']
    have in_s: "t \<in> fst ` set (continuations s)"
      and gone: "t \<notin> fst ` set (continuations (snd (step e s)))"
      by (auto simp: e split: prod.splits)
    have npt: "t \<notin> set Object_prototype_names" using Cons.prems(3) in_s by blast
    have nm: "t \<notin> set (minted es)" using Cons.prems(2) in_s e by auto
    show ?thesis using no_resumption_when_absent[OF gone npt nm] True by simp
  qed
qed

text \<open>
  Claim C1. In every history of the server that starts with the empty registry and in
  which the ids minted by \<open>sendSuspend\<close> are pairwise distinct and have the format of
  \<open>uuidv4\<close>, at most one request to \<open>/continue/t\<close> makes the handler call the stored
  resolve function, and every request bearing \<open>t\<close> that is handled after such a
  request takes the branch of the expired-or-invalid notice.
\<close>

theorem resumed_at_most_once:
  assumes "distinct (minted evs)" and "\<forall>t \<in> set (minted evs). uuid_format t"
  shows "length (filter (resumes t) (zip evs (run init_registry evs))) \<le> 1 \<and>
         (\<forall>i j k. i < j \<and> j < length evs \<and> evs ! i = Continue t \<and>
                  run init_registry evs ! i = Some (Resumed k) \<and> evs ! j = Continue t
                  \<longrightarrow> run init_registry evs ! j = Some Expired)"
proof -
  have k0: "fst ` set (continuations (init_registry :: 'a registry)) \<inter> set (minted evs) = {}"
    by (simp add: init_registry_def)
  have np: "\<forall>t \<in> fst ` set (continuations (init_registry :: 'a registry)) \<union> set (minted evs).
              t \<notin> set Object_prototype_names"
    using assms(2) uuid_not_proto by (auto simp: init_registry_def)
  show ?thesis
    using resumed_count_general[OF assms(1) k0 np] resumed_once_general[OF assms(1) k0 np]
    by blast
qed

theorem resumed_at_most_once_witness:
  "distinct (minted [Suspend (uuid_of 1) (7::nat), Continue (uuid_of 1), Continue (uuid_of 1)]) \<and>
   uuid_format (uuid_of 1) \<and>
   run init_registry [Suspend (uuid_of 1) (7::nat), Continue (uuid_of 1), Continue (uuid_of 1)]
     = [None, Some (Resumed 7), Some Expired] \<and>
   length (filter (resumes (uuid_of 1))
     (zip [Suspend (uuid_of 1) (7::nat), Continue (uuid_of 1), Continue (uuid_of 1)]
          (run init_registry [Suspend (uuid_of 1) 7, Continue (uuid_of 1), Continue (uuid_of 1)])))
     \<le> 1"
proof -
  have f: "uuid_format (uuid_of 1)"
    by (simp add: uuid_format_def uuid_of_def hex_digit_def upt_rec)
  have h1: "distinct (minted [Suspend (uuid_of 1) (7::nat), Continue (uuid_of 1), Continue (uuid_of 1)])"
    by simp
  have h2: "\<forall>t \<in> set (minted [Suspend (uuid_of 1) (7::nat), Continue (uuid_of 1), Continue (uuid_of 1)]).
      uuid_format t"
    using f by simp
  have r: "run init_registry [Suspend (uuid_of 1) (7::nat), Continue (uuid_of 1), Continue (uuid_of 1)]
     = [None, Some (Resumed 7), Some Expired]"
    by (simp add: init_registry_def sendSuspend_def push_indexed_def evict_noop
          continue_request_def property_lookup_def uuid_of_def Object_prototype_names_def)
  show ?thesis
    using f h1 r resumed_at_most_once[OF h1 h2, of "uuid_of 1"] by simp
qed

text \<open>
  Suspensions with fresh ids, run from a registry whose \<open>uuids\<close> array is empty, append
  their entries and leave \<open>uuids\<close> empty: the eviction loop never runs.
\<close>

lemma exec_suspends:
  "uuids s = [] \<Longrightarrow> distinct (map fst tks) \<Longrightarrow> fst ` set tks \<inter> fst ` set (continuations s) = {} \<Longrightarrow>
   exec s (map (\<lambda>(t, k). Suspend t k) tks) = s\<lparr>continuations := continuations s @ tks\<rparr>"
proof (induction tks arbitrary: s)
  case Nil
  then show ?case by simp
next
  case (Cons p tks)
  obtain t k where p: "p = (t, k)" by (cases p)
  let ?s' = "s\<lparr>continuations := continuations s @ [(t, k)]\<rparr>"
  have fresh: "t \<notin> fst ` set (continuations s)" using Cons.prems(3) p by auto
  have st: "snd (sendSuspend t k s) = ?s'"
    using Cons.prems(1) fresh
    by (simp add: sendSuspend_def push_indexed_def evict_noop update_fresh)
  have "exec ?s' (map (\<lambda>(t, k). Suspend t k) tks) = ?s'\<lparr>continuations := continuations ?s' @ tks\<rparr>"
    using Cons.prems p by (intro Cons.IH) auto
  then show ?case by (simp add: p st)
qed

lemma digit_inj: "a < 10 \<Longrightarrow> b < 10 \<Longrightarrow> ''0123456789'' ! a = ''0123456789'' ! b \<Longrightarrow> a = b"
proof -
  have d: "distinct ''0123456789''" by simp
  show "a < 10 \<Longrightarrow> b < 10 \<Longrightarrow> ''0123456789'' ! a = ''0123456789'' ! b \<Longrightarrow> a = b"
    using d by (simp add: nth_eq_iff_index_eq del: distinct.simps)
qed

lemma decimal_digits:
  "(n::nat) < 1000 \<Longrightarrow> n = (n div 100 mod 10) * 100 + (n div 10 mod 10) * 10 + n mod 10"
proof -
  assume n: "n < 1000"
  have a: "n div 100 mod 10 = n div 100" using n by simp
  have b: "n mod 100 = (n div 10 mod 10) * 10 + n mod 10"
    using mod_mult2_eq[of n 10 10] by simp
  have "n = (n div 100) * 100 + n mod 100" by simp
  then show ?thesis using a b by simp
qed

lemma uuid_of_inj: "n < 1000 \<Longrightarrow> m < 1000 \<Longrightarrow> uuid_of n = uuid_of m \<Longrightarrow> n = m"
proof -
  assume n: "n < 1000" and m: "m < 1000" and e: "uuid_of n = uuid_of m"
  from e have "''0123456789'' ! (n div 100 mod 10) = ''0123456789'' ! (m div 100 mod 10)"
    and "''0123456789'' ! (n div 10 mod 10) = ''0123456789'' ! (m div 10 mod 10)"
    and "''0123456789'' ! (n mod 10) = ''0123456789'' ! (m mod 10)"
    by (simp_all add: uuid_of_def)
  then have "n div 100 mod 10 = m div 100 mod 10" "n div 10 mod 10 = m div 10 mod 10"
    "n mod 10 = m mod 10"
    by (auto intro: digit_inj)
  with decimal_digits[OF n] decimal_digits[OF m] show "n = m" by simp
qed

lemma exec_suspensions:
  assumes "n \<le> 1000"
  shows "exec init_registry (suspensions n) =
         \<lparr>continuations = map (\<lambda>i. (uuid_of i, i)) [0..<n], uuids = []\<rparr>"
proof -
  have m: "suspensions n = map (\<lambda>(t, k). Suspend t k) (map (\<lambda>i. (uuid_of i, i)) [0..<n])"
    by (simp add: suspensions_def)
  have "distinct (map (\<lambda>i. uuid_of i) [0..<n])"
    using assms by (auto simp: distinct_map inj_on_def intro: uuid_of_inj)
  then have d: "distinct (map fst (map (\<lambda>i. (uuid_of i, i)) [0..<n]))"
    by (simp add: comp_def)
  show ?thesis
    unfolding m
    by (subst exec_suspends) (use d in \<open>simp_all add: init_registry_def\<close>)
qed

text \<open>
  Claim C2 (the code departs from it). After 101 suspensions in a row, each with a fresh
  id, the array \<open>uuids\<close> is still empty, \<open>continuations\<close> holds 101 entries, which is
  more than \<open>MAX_CONTINUATIONS\<close>, and a request bearing the oldest id is still resumed.
\<close>

theorem registry_exceeds_capacity:
  "uuids (exec init_registry (suspensions 101)) = [] \<and>
   length (continuations (exec init_registry (suspensions 101))) = 101 \<and>
   MAX_CONTINUATIONS < length (continuations (exec init_registry (suspensions 101))) \<and>
   fst (continue_request (uuid_of 0) (exec init_registry (suspensions 101))) = Resumed 0"
proof -
  have e: "exec init_registry (suspensions 101) =
         \<lparr>continuations = map (\<lambda>i. (uuid_of i, i)) [0..<101], uuids = []\<rparr>"
    by (rule exec_suspensions) simp
  have u: "[0..<101] = 0 # [1..<101]" by (simp add: upt_rec)
  show ?thesis
    unfolding e by (simp add: MAX_CONTINUATIONS_def continue_request_def property_lookup_def u)
qed

text \<open>
  Claim C9 (the code departs from it). The id \<open>constructor\<close> was never minted, yet a
  request to \<open>/continue/constructor\<close> does not get the notice: the lookup finds the
  member inherited from \<open>Object.prototype\<close>, and the handler calls it. The same holds
  of \<open>toString\<close>. The registry is left unchanged.
\<close>

theorem inherited_name_not_expired:
  "continue_request ''constructor'' (init_registry :: nat registry) =
     (CalledInherited ''constructor'', init_registry) \<and>
   continue_request ''toString'' (init_registry :: nat registry) =
     (CalledInherited ''toString'', init_registry)"
  by (simp add: continue_request_def property_lookup_def Object_prototype_names_def
        init_registry_def)

section \<open>Properties of marking\<close>














text \<open>
  When the stored answer is itself a string, as it is for every question made by the
  add-question dialog (\<open>req.query.correctIndex\<close>), two strings are compared and no
  conversion takes place.
\<close>

lemma multiple_mark_stored_string:
  "get question ''answer'' = Inr (Str a) \<Longrightarrow> multiple_mark question (Str s) = Inr (a = s)"
  by (simp add: multiple_mark_def)



section \<open>Properties of the quiz procedures\<close>

lemma playQuiz_no_questions:
  "get quiz ''questions'' = Inr (Arr []) \<Longrightarrow> playQuiz quiz t = Inl TypeError"
  by (simp add: playQuiz_def iterate_def play_from_def reduce_def)

text \<open>
  Claim C3 (the code departs from it). Playing a quiz with no questions: \<open>stats\<close> is
  empty when the loop ends, \<open>stats.map(...).reduce(add)\<close> has no initial value and
  raises a TypeError, and the finished summary is never shown. So it goes for the quiz
  \<open>/new\<close> makes when play is requested at its first overview.
\<close>

theorem empty_quiz_play_raises:
  \<open>playQuiz (Obj [(''title'', Str ''Geo''), (''questions'', Arr [])]) 0 = Inl TypeError \<and>
   session K_new
     [\<lparr>query = [(''quizTitle'', Str ''Geo'')], file_data = None, now = 0\<rparr>,
      \<lparr>query = [(''playQuiz'', Str ''Play'')], file_data = None, now = 5000\<rparr>] =
     ([OverviewPage (Obj [(''title'', Str ''Geo''), (''questions'', Arr [])])
         (jsonToDataURI ''{"title":"Geo","questions":[]}'')],
      Inl TypeError)\<close>
proof -
  have s: \<open>stringify (Obj [(''title'', Str ''Geo''), (''questions'', Arr [])]) =
           Some ''{"title":"Geo","questions":[]}''\<close>
    by code_simp
  have p: "playQuiz (Obj [(''title'', Str ''Geo''), (''questions'', Arr [])]) t = Inl TypeError" for t
    by (rule playQuiz_no_questions) simp
  show ?thesis
    by (simp add: p manageQuiz_def s param_def del: stringify.simps)
qed

lemma loose_eq_undefined:
  "a \<noteq> Undefined \<Longrightarrow> a \<noteq> Null \<Longrightarrow> loose_eq a Undefined = Inr False"
  by (cases a) simp_all

lemma missing_answer_multiple:
  assumes "get question ''type'' = Inr ty" and "lookup_type ty = Inr Multiple"
      and "get question ''answer'' = Inr a" and "a \<noteq> Undefined" and "a \<noteq> Null"
      and "get quiz ''title'' = Inr title"
      and "param req ''answer'' = Undefined"
  shows "resume (K_present quiz rest stats question t0) req =
           Inr (FeedbackPage title False (now req - t0) Undefined question,
                K_feedback quiz rest
                  (stats @ [\<lparr>stat_question = question, responseTime = now req - t0,
                             correct = False\<rparr>]))"
  using assms by (simp add: multiple_mark_def loose_eq_undefined)

text \<open>
  Claim C4 (the code departs from it). The presentation of the free-text question
  \<open>{text: 'Capital of France?', answer: 'Paris', type: 'free'}\<close> is resumed by a request
  with no \<open>answer\<close> parameter: \<open>req.query.answer\<close> is \<open>undefined\<close>, \<open>free.mark\<close> evaluates
  \<open>answer.toLowerCase()\<close> on it (line 85), a TypeError is raised that nothing catches, and
  the play procedure stops: no feedback page, no statistics entry. The same question
  resumed with the empty answer is marked incorrect and play goes on, and so is a
  multiple-choice question resumed with no \<open>answer\<close> parameter (\<open>multiple.mark\<close>,
  line 104, compares with \<open>==\<close>).
\<close>

theorem missing_answer_free_raises:
  "resume (K_present (Obj [(''title'', Str ''Geo''), (''questions'', Arr [])]) [] []
             (Obj [(''text'', Str ''Capital of France?''), (''answer'', Str ''Paris''),
                   (''type'', Str ''free'')]) 0)
          \<lparr>query = [], file_data = None, now = 1500\<rparr> = Inl TypeError \<and>
   resume (K_present (Obj [(''title'', Str ''Geo''), (''questions'', Arr [])]) [] []
             (Obj [(''text'', Str ''Capital of France?''), (''answer'', Str ''Paris''),
                   (''type'', Str ''free'')]) 0)
          \<lparr>query = [(''answer'', Str [])], file_data = None, now = 1500\<rparr> =
     Inr (FeedbackPage (Str ''Geo'') False 1500 (Str [])
            (Obj [(''text'', Str ''Capital of France?''), (''answer'', Str ''Paris''),
                  (''type'', Str ''free'')]),
          K_feedback (Obj [(''title'', Str ''Geo''), (''questions'', Arr [])]) []
            [\<lparr>stat_question = Obj [(''text'', Str ''Capital of France?''),
                   (''answer'', Str ''Paris''), (''type'', Str ''free'')],
              responseTime = 1500, correct = False\<rparr>]) \<and>
   resume (K_present (Obj [(''title'', Str ''Geo''), (''questions'', Arr [])]) [] []
             (Obj [(''text'', Str ''Pick one''), (''answer'', Str ''2''),
                   (''choices'', Arr [Str ''a'', Str ''b'', Str ''c'', Str ''d'', Str ''e'']),
                   (''type'', Str ''multiple'')]) 0)
          \<lparr>query = [], file_data = None, now = 1500\<rparr> =
     Inr (FeedbackPage (Str ''Geo'') False 1500 Undefined
            (Obj [(''text'', Str ''Pick one''), (''answer'', Str ''2''),
                   (''choices'', Arr [Str ''a'', Str ''b'', Str ''c'', Str ''d'', Str ''e'']),
                   (''type'', Str ''multiple'')]),
          K_feedback (Obj [(''title'', Str ''Geo''), (''questions'', Arr [])]) []
            [\<lparr>stat_question = Obj [(''text'', Str ''Pick one''), (''answer'', Str ''2''),
                   (''choices'', Arr [Str ''a'', Str ''b'', Str ''c'', Str ''d'', Str ''e'']),
                   (''type'', Str ''multiple'')],
              responseTime = 1500, correct = False\<rparr>])"
  by (simp add: lookup_type_def questionTypes_def free_mark_def multiple_mark_def param_def)

lemma ToString_error:
  "ToString v = Inl e \<Longrightarrow> e = TypeError"
  "ToString_elements vs = Inl e \<Longrightarrow> e = TypeError"
  by (induction v and vs arbitrary: e and e rule: ToString_ToString_elements.induct)
     (auto split: sum.splits if_splits)

lemma lookup_type_unregistered:
  assumes "ToString x \<noteq> Inr ''free''" and "ToString x \<noteq> Inr ''multiple''"
  shows "lookup_type x = Inl TypeError"
proof (cases "ToString x")
  case (Inl e)
  then show ?thesis using ToString_error(1)[OF Inl] by (simp add: lookup_type_def)
next
  case (Inr key)
  then show ?thesis using assms by (simp add: lookup_type_def questionTypes_def)
qed

text \<open>
  Claim C10. When the overview is resumed with \<open>addQuestion\<close> set and a \<open>type\<close> whose
  property key is neither \<open>free\<close> nor \<open>multiple\<close> (an absent \<open>type\<close> among them),
  the step is not an idle refresh: the dispatch to \<open>create\<close> raises a TypeError and the
  authoring procedure stops.
\<close>

theorem unregistered_type_aborts:
  assumes "truthy (param req ''addQuestion'')"
      and "ToString (param req ''type'') \<noteq> Inr ''free''"
      and "ToString (param req ''type'') \<noteq> Inr ''multiple''"
  shows "resume (K_overview quiz) req = Inl TypeError"
  using assms(1) lookup_type_unregistered[OF assms(2,3)] by simp

theorem unregistered_type_aborts_witness:
  "truthy (param \<lparr>query = [(''addQuestion'', Str ''Add''), (''type'', Str ''essay'')],
                  file_data = None, now = 0\<rparr> ''addQuestion'') \<and>
   resume (K_overview (Obj [(''title'', Str ''Geo''), (''questions'', Arr [])]))
     \<lparr>query = [(''addQuestion'', Str ''Add''), (''type'', Str ''essay'')],
      file_data = None, now = 0\<rparr> = Inl TypeError \<and>
   resume (K_overview (Obj [(''title'', Str ''Geo''), (''questions'', Arr [])]))
     \<lparr>query = [(''addQuestion'', Str ''Add'')], file_data = None, now = 0\<rparr> = Inl TypeError"
proof -
  let ?r1 = "\<lparr>query = [(''addQuestion'', Str ''Add''), (''type'', Str ''essay'')],
                  file_data = None, now = 0\<rparr>"
  let ?r2 = "\<lparr>query = [(''addQuestion'', Str ''Add'')], file_data = None, now = 0\<rparr>"
  have a1: "truthy (param ?r1 ''addQuestion'')" by (simp add: param_def)
  have b1: "ToString (param ?r1 ''type'') \<noteq> Inr ''free''" by (simp add: param_def)
  have c1: "ToString (param ?r1 ''type'') \<noteq> Inr ''multiple''" by (simp add: param_def)
  have a2: "truthy (param ?r2 ''addQuestion'')" by (simp add: param_def)
  have b2: "ToString (param ?r2 ''type'') \<noteq> Inr ''free''" by (simp add: param_def)
  have c2: "ToString (param ?r2 ''type'') \<noteq> Inr ''multiple''" by (simp add: param_def)
  show ?thesis
    using a1 unregistered_type_aborts[OF a1 b1 c1] unregistered_type_aborts[OF a2 b2 c2]
    by simp
qed

lemma parse_value_defined: "parse_value n cs = Inr (v, rest) \<Longrightarrow> v \<noteq> Undefined"
  by (cases n)
     (auto simp: parse_number_def parse_literal_def build_object_def Let_def
           split: list.splits if_splits sum.splits prod.splits)

lemma JSON_parse_stringify_some: "JSON_parse text = Inr quiz \<Longrightarrow> \<exists>json. stringify quiz = Some json"
proof -
  assume a: "JSON_parse text = Inr quiz"
  then obtain rest where "parse_value (Suc (length text)) text = Inr (quiz, rest)"
    by (auto simp: JSON_parse_def split: sum.splits if_splits)
  then have "quiz \<noteq> Undefined" by (rule parse_value_defined)
  then show ?thesis by (cases quiz) simp_all
qed

text \<open>
  Claim C5, amended. The \<open>/load\<close> flow checks nothing about the shape of what was
  uploaded: when the text of the file is not accepted by \<open>JSON.parse\<close> the exception
  it raises ends the flow, and every value \<open>JSON.parse\<close> returns is handed to
  \<open>manageQuiz\<close>, which shows the overview for it.
\<close>

theorem load_without_validation:
  assumes "file_data req = Some bytes" and "utf8_decode bytes = Inr text"
  shows "(\<forall>e. JSON_parse text = Inl e \<longrightarrow> resume K_load req = Inl e) \<and>
         (\<forall>quiz. JSON_parse text = Inr quiz \<longrightarrow>
            (\<exists>json. stringify quiz = Some json \<and>
               resume K_load req = Inr (OverviewPage quiz (jsonToDataURI json), K_overview quiz)))"
proof (intro conjI allI impI)
  fix e assume "JSON_parse text = Inl e"
  then show "resume K_load req = Inl e" using assms by simp
next
  fix quiz assume p: "JSON_parse text = Inr quiz"
  from JSON_parse_stringify_some[OF p] obtain json where j: "stringify quiz = Some json" ..
  then have "resume K_load req = Inr (OverviewPage quiz (jsonToDataURI json), K_overview quiz)"
    using assms p by (simp add: manageQuiz_def)
  with j show "\<exists>json. stringify quiz = Some json \<and>
               resume K_load req = Inr (OverviewPage quiz (jsonToDataURI json), K_overview quiz)"
    by blast
qed

theorem load_without_validation_witness:
  "utf8_decode [91, 49, 93] = Inr ''[1]'' \<and> JSON_parse ''[1]'' = Inr (Arr [Num 1]) \<and>
   stringify (Arr [Num 1]) = Some ''[1]'' \<and>
   resume K_load \<lparr>query = [], file_data = Some [91, 49, 93], now = 0\<rparr> =
     Inr (OverviewPage (Arr [Num 1]) (jsonToDataURI ''[1]''), K_overview (Arr [Num 1]))"
proof -
  let ?req = "\<lparr>query = [], file_data = Some [91, 49, 93], now = 0\<rparr>"
  have f: "file_data ?req = Some [91, 49, 93]" by simp
  have u: "utf8_decode [91, 49, 93] = Inr ''[1]''" by code_simp
  have p: "JSON_parse ''[1]'' = Inr (Arr [Num 1])" by code_simp
  have s: "stringify (Arr [Num 1]) = Some ''[1]''" by code_simp
  from load_without_validation[OF f u] p s
  have "resume K_load ?req = Inr (OverviewPage (Arr [Num 1]) (jsonToDataURI ''[1]''), K_overview (Arr [Num 1]))"
    by auto
  with u p s show ?thesis by simp
qed

text \<open>
  Claim C5 as stated fails. The upload \<open>{}\<close> has neither a title nor questions, yet
  the session enters the authoring loop with it; the upload \<open>oops\<close> is not reported as
  an input error: the SyntaxError of \<open>JSON.parse\<close> is not caught and no response is
  sent.
\<close>

theorem load_malformed_counterexample:
  "resume K_load \<lparr>query = [], file_data = Some [123, 125], now = 0\<rparr> =
     Inr (OverviewPage (Obj []) (jsonToDataURI ''{}''), K_overview (Obj [])) \<and>
   resume K_load \<lparr>query = [], file_data = Some [111, 111, 112, 115], now = 0\<rparr> =
     Inl SyntaxError"
proof -
  have u1: "utf8_decode [123, 125] = Inr ''{}''" by code_simp
  have p1: "JSON_parse ''{}'' = Inr (Obj [])" by code_simp
  have u2: "utf8_decode [111, 111, 112, 115] = Inr ''oops''" by code_simp
  have p2: "JSON_parse ''oops'' = Inl SyntaxError" by code_simp
  show ?thesis
    by (simp add: u1 p1 u2 p2 manageQuiz_def del: utf8_decode.simps)
qed

section \<open>Export followed by import\<close>


text \<open>Reading a quoted string back.\<close>

lemma hex_val_hex_char: "k < 16 \<Longrightarrow> hex_val (hex_char k) = Some k"
proof -
  have "list_all (\<lambda>k. hex_val (hex_char k) = Some k) [0..<16]" by code_simp
  then show "k < 16 \<Longrightarrow> hex_val (hex_char k) = Some k"
    by (simp add: list_all_iff)
qed

lemma char_by_code: "(of_char c :: nat) = of_char d \<Longrightarrow> c = d"
  by simp

lemma parse_escape_char:
  assumes "parse_string_body cs = Inr (s, rest)"
  shows "parse_string_body (escape_char c @ cs) = Inr (c # s, rest)"
proof -
  define n where "n = (of_char c :: nat)"
  have c: "char_of n = c" by (simp add: n_def)
  have lt: "n < 256" by (simp add: n_def)
  consider "n = 8" | "n = 9" | "n = 10" | "n = 12" | "n = 13" | "n = 34" | "n = 92"
    | "n < 32" "n \<notin> {8, 9, 10, 12, 13}" | "32 \<le> n" "n \<noteq> 34" "n \<noteq> 92"
    by force
  then show ?thesis
  proof cases
    case 1
    then have "c = CHR 0x08" by (intro char_by_code) (simp add: n_def)
    then show ?thesis using assms by (simp add: escape_char_def unescape_def cons_result_def)
  next
    case 2
    then have "c = CHR 0x09" by (intro char_by_code) (simp add: n_def)
    then show ?thesis using assms by (simp add: escape_char_def unescape_def cons_result_def)
  next
    case 3
    then have "c = CHR 0x0A" by (intro char_by_code) (simp add: n_def)
    then show ?thesis using assms by (simp add: escape_char_def unescape_def cons_result_def)
  next
    case 4
    then have "c = CHR 0x0C" by (intro char_by_code) (simp add: n_def)
    then show ?thesis using assms by (simp add: escape_char_def unescape_def cons_result_def)
  next
    case 5
    then have "c = CHR 0x0D" by (intro char_by_code) (simp add: n_def)
    then show ?thesis using assms by (simp add: escape_char_def unescape_def cons_result_def)
  next
    case 6
    then have "c = CHR 0x22" by (intro char_by_code) (simp add: n_def)
    then show ?thesis using assms by (simp add: escape_char_def unescape_def cons_result_def)
  next
    case 7
    then have "c = CHR 0x5C" by (intro char_by_code) (simp add: n_def)
    then show ?thesis using assms by (simp add: escape_char_def unescape_def cons_result_def)
  next
    case 8
    have h: "hex4 (take 4 (CHR ''0'' # CHR ''0'' # hex_char (n div 16) # hex_char n # cs)) = Some n"
    proof -
      have a: "n div 16 < 16" using 8(1) by simp
      have b: "n mod 16 < 16" by simp
      have hc: "hex_char n = hex_char (n mod 16)" by (simp add: hex_char_def)
      have z: "hex_val (CHR ''0'') = Some 0" by (simp add: hex_val_def)
      show ?thesis
        using hex_val_hex_char[OF a] hex_val_hex_char[OF b] by (simp add: hc z)
    qed
    have e: "escape_char c = [CHR 0x5C, CHR ''u'', CHR ''0'', CHR ''0'', hex_char (n div 16), hex_char n]"
      using 8 by (auto simp: escape_char_def n_def[symmetric] Let_def)
    show ?thesis
      unfolding e using h lt assms by (simp add: cons_result_def c)
  next
    case 9
    have e: "escape_char c = [c]"
      using 9 by (auto simp: escape_char_def n_def[symmetric] Let_def)
    have ne: "c \<noteq> CHR 0x22" "c \<noteq> CHR 0x5C" using 9 by (auto simp: n_def)
    show ?thesis
      unfolding e using ne 9(1) assms by (simp add: cons_result_def n_def[symmetric])
  qed
qed

lemma parse_quoted_body:
  "parse_string_body (concat (map escape_char s) @ CHR 0x22 # rest) = Inr (s, rest)"
  by (induction s) (simp_all add: parse_escape_char)

lemma parse_quote: "parse_string_body (tl (quote s) @ rest) = Inr (s, rest)"
  by (simp add: quote_def parse_quoted_body)







































end
